theory Spec2Isabelle
  imports Main
begin

section \<open>Severities and their tags\<close>

text \<open>
  \<^verbatim>\<open>logging.Severity\<close> of \<^verbatim>\<open>cloud.google.com/go/logging\<close> is an integer type; the
  package declares nine named values. The type is open: any integer converts to it.
\<close>

type_synonym Severity = int

definition logging_Default :: Severity where "logging_Default = 0"
definition logging_Debug :: Severity where "logging_Debug = 100"
definition logging_Info :: Severity where "logging_Info = 200"
definition logging_Notice :: Severity where "logging_Notice = 300"
definition logging_Warning :: Severity where "logging_Warning = 400"
definition logging_Error :: Severity where "logging_Error = 500"
definition logging_Critical :: Severity where "logging_Critical = 600"
definition logging_Alert :: Severity where "logging_Alert = 700"
definition logging_Emergency :: Severity where "logging_Emergency = 800"

text \<open>The package-level table \<^verbatim>\<open>formats\<close> (log.go, lines 34-42), in the order written.\<close>

definition formats :: "(Severity \<times> string) list" where
  "formats =
    [(logging_Debug, ''[TRACE] ''),
     (logging_Info, ''[INFO] ''),
     (logging_Notice, ''[NOTICE] ''),
     (logging_Warning, ''[WARN] ''),
     (logging_Error, ''[ERROR] ''),
     (logging_Alert, ''[ALERT] ''),
     (logging_Emergency, ''[EMERGENCY] '')]"

text \<open>
  The index expression \<^verbatim>\<open>formats[severity]\<close>: a Go map read of an absent key yields the
  zero value of the element type, here the empty string.
\<close>

definition formats_at :: "Severity \<Rightarrow> string" where
  "formats_at severity = (case map_of formats severity of None \<Rightarrow> [] | Some tag \<Rightarrow> tag)"

section \<open>Decimal formatting as \<^verbatim>\<open>fmt\<close> does it\<close>

definition digit :: "nat \<Rightarrow> char" where
  "digit d = ''0123456789'' ! (d mod 10)"

fun itoa :: "nat \<Rightarrow> string" where
  "itoa n = (if n < 10 then [digit n] else itoa (n div 10) @ [digit (n mod 10)])"

declare itoa.simps [simp del]

text \<open>The verb \<^verbatim>\<open>%d\<close> on an integer: sign, then the digits, no padding.\<close>

definition fmt_d :: "int \<Rightarrow> string" where
  "fmt_d n = (if n < 0 then ''-'' else []) @ itoa (nat \<bar>n\<bar>)"

text \<open>
  The verb \<^verbatim>\<open>%0wd\<close>: the zero flag with a width turns the width into a digit count, one
  less when a sign is printed; the digits are padded with zeros on the left up to that
  count and never cut.
\<close>

definition fmt_0d :: "nat \<Rightarrow> int \<Rightarrow> string" where
  "fmt_0d wid n =
    (let ds = itoa (nat \<bar>n\<bar>);
         prec = (if n < 0 then wid - 1 else wid)
     in (if n < 0 then ''-'' else []) @ replicate (prec - length ds) (CHR ''0'') @ ds)"

text \<open>Go's integer division truncates toward zero.\<close>

definition quo :: "int \<Rightarrow> int \<Rightarrow> int" where
  "quo a b = sgn a * sgn b * (\<bar>a\<bar> div \<bar>b\<bar>)"

section \<open>Timestamps\<close>

text \<open>
  An instant, as the accessor methods of \<^verbatim>\<open>time.Time\<close> present it: \<^verbatim>\<open>t.Day()\<close>,
  \<^verbatim>\<open>t.Month()\<close>, \<^verbatim>\<open>t.Year()\<close>, \<^verbatim>\<open>t.Hour()\<close>, \<^verbatim>\<open>t.Minute()\<close>, \<^verbatim>\<open>t.Second()\<close> and
  \<^verbatim>\<open>t.Nanosecond()\<close>.
\<close>

record Time =
  Day :: int
  Month :: int
  Year :: int
  Hour :: int
  Minute :: int
  Second :: int
  Nanosecond :: int

text \<open>The ranges the accessors guarantee; the year is any integer.\<close>

definition valid_time :: "Time \<Rightarrow> bool" where
  "valid_time t \<longleftrightarrow>
     1 \<le> Day t \<and> Day t \<le> 31 \<and> 1 \<le> Month t \<and> Month t \<le> 12 \<and>
     0 \<le> Hour t \<and> Hour t \<le> 23 \<and> 0 \<le> Minute t \<and> Minute t \<le> 59 \<and>
     0 \<le> Second t \<and> Second t \<le> 59 \<and>
     0 \<le> Nanosecond t \<and> Nanosecond t \<le> 999999999"

text \<open>
  \<^verbatim>\<open>formataTimePadraoLog\<close> (log.go, lines 60-64): the format string is
  \<^verbatim>\<open>"%02d/%02d/%04d %02d:%02d:%02d.%d"\<close>.
\<close>

definition formataTimePadraoLog :: "Time \<Rightarrow> string" where
  "formataTimePadraoLog t =
     fmt_0d 2 (Day t) @ ''/'' @ fmt_0d 2 (Month t) @ ''/'' @ fmt_0d 4 (Year t) @ '' '' @
     fmt_0d 2 (Hour t) @ '':'' @ fmt_0d 2 (Minute t) @ '':'' @ fmt_0d 2 (Second t) @ ''.'' @
     fmt_d (quo (Nanosecond t) 1000000)"

section \<open>Message rendering: \<^verbatim>\<open>fmt.Sprint\<close> and \<^verbatim>\<open>fmt.Sprintf\<close>\<close>

text \<open>
  The variadic \<^verbatim>\<open>args ...interface{}\<close> carry values of any type. The model keeps three
  operand types, enough to tell a string operand from the others.
\<close>

datatype arg = AString string | AInt int | ABool bool

fun isString :: "arg \<Rightarrow> bool" where
  "isString (AString s) = True"
| "isString (AInt n) = False"
| "isString (ABool b) = False"

fun isInt :: "arg \<Rightarrow> bool" where
  "isInt (AString s) = False"
| "isInt (AInt n) = True"
| "isInt (ABool b) = False"

text \<open>The default representation of an operand, that of the verb \<^verbatim>\<open>%v\<close>.\<close>

fun default_string :: "arg \<Rightarrow> string" where
  "default_string (AString s) = s"
| "default_string (AInt n) = fmt_d n"
| "default_string (ABool b) = (if b then ''true'' else ''false'')"

fun type_name :: "arg \<Rightarrow> string" where
  "type_name (AString s) = ''string''"
| "type_name (AInt n) = ''int''"
| "type_name (ABool b) = ''bool''"

text \<open>
  \<^verbatim>\<open>fmt.Sprint\<close> walks the operands with their index and whether the previous one was a
  string, and writes a space before an operand when it is not the first and neither it
  nor the previous operand is a string.
\<close>

fun doPrint :: "nat \<Rightarrow> bool \<Rightarrow> arg list \<Rightarrow> string" where
  "doPrint argNum prevString [] = []"
| "doPrint argNum prevString (a # as) =
     (if 0 < argNum \<and> \<not> isString a \<and> \<not> prevString then '' '' else []) @
     default_string a @ doPrint (Suc argNum) (isString a) as"

definition Sprint :: "arg list \<Rightarrow> string" where
  "Sprint args = doPrint 0 False args"

text \<open>
  \<^verbatim>\<open>fmt.Sprintf\<close> is a parameter of the logger's operations below (written \<open>sf\<close>), so
  that what is proved of them holds whatever the formatting verbs do. For concrete runs
  the following instance is used. It covers \<^verbatim>\<open>%%\<close> and the verbs \<^verbatim>\<open>v\<close>, \<^verbatim>\<open>s\<close> and \<^verbatim>\<open>d\<close>
  without flags, width or precision, together with the library's markers for a missing
  operand, surplus operands, a verb that does not fit its operand and a format that
  ends in a lone percent sign. On formats with these directives only it is what the
  library computes; any other character after a percent sign (a flag, a width, another
  verb) is outside the instance, which treats it as a verb that does not fit.
\<close>

definition printArg :: "arg \<Rightarrow> char \<Rightarrow> string" where
  "printArg a verb =
     (if verb = CHR ''v'' \<or> (verb = CHR ''s'' \<and> isString a) \<or> (verb = CHR ''d'' \<and> isInt a)
      then default_string a
      else ''%!'' @ [verb] @ ''('' @ type_name a @ ''='' @ default_string a @ '')'')"

fun extraArgs :: "arg list \<Rightarrow> string" where
  "extraArgs [] = []"
| "extraArgs [a] = type_name a @ ''='' @ default_string a"
| "extraArgs (a # b # as) = type_name a @ ''='' @ default_string a @ '', '' @ extraArgs (b # as)"

definition extraString :: "arg list \<Rightarrow> string" where
  "extraString as = (if as = [] then [] else ''%!(EXTRA '' @ extraArgs as @ '')'')"

fun doPrintf :: "string \<Rightarrow> arg list \<Rightarrow> string" where
  "doPrintf [] as = extraString as"
| "doPrintf [c] as = (if c = CHR ''%'' then ''%!(NOVERB)'' else [c]) @ extraString as"
| "doPrintf (c # verb # rest) as =
     (if c = CHR ''%'' then
        (if verb = CHR ''%'' then CHR ''%'' # doPrintf rest as
         else (case as of
                 [] \<Rightarrow> ''%!'' @ [verb] @ ''(MISSING)'' @ doPrintf rest []
               | a # as' \<Rightarrow> printArg a verb @ doPrintf rest as'))
      else c # doPrintf (verb # rest) as)"

definition Sprintf :: "string \<Rightarrow> arg list \<Rightarrow> string" where
  "Sprintf format args = doPrintf format args"

section \<open>The logger and the world around it\<close>

text \<open>
  The struct \<^verbatim>\<open>Log\<close> (log.go, lines 45-57). A mutex is the flag "held"; the two pointer
  fields are options, \<open>None\<close> for nil; the buffer is the byte string it holds.
\<close>

record Log =
  enableConsole :: bool
  enableFile :: bool
  enableStackDriver :: bool
  muxConsole :: bool
  muxFile :: bool
  fileName :: string
  bufferFile :: "string option"
  logStackdriver :: "nat option"

text \<open>
  What the logger acts on outside itself: the clock (the readings \<^verbatim>\<open>time.Now()\<close> will
  return, and how many were taken), the writes made to standard output and to standard
  error, the entries handed to the remote client, the files, and the calls of
  \<^verbatim>\<open>ioutil.WriteFile\<close> made so far.
\<close>

record World =
  now_at :: "nat \<Rightarrow> Time"
  reads :: nat
  stdout :: "string list"
  stderr :: "string list"
  remote :: "(nat \<times> Severity \<times> string) list"
  files :: "string \<Rightarrow> string option"
  writes :: "(string \<times> string) list"

definition time_Now :: "World \<Rightarrow> Time \<times> World" where
  "time_Now w = (now_at w (reads w), w\<lparr>reads := Suc (reads w)\<rparr>)"

definition newline :: string where
  "newline = [CHR 0x0A]"

text \<open>\<^verbatim>\<open>fmt.Printf\<close> formats and makes one write to standard output.\<close>

definition fmt_Printf :: "(string \<Rightarrow> arg list \<Rightarrow> string) \<Rightarrow> string \<Rightarrow> arg list \<Rightarrow> World \<Rightarrow> World" where
  "fmt_Printf sf format args w = w\<lparr>stdout := stdout w @ [sf format args]\<rparr>"

text \<open>
  \<^verbatim>\<open>log.Printf\<close> goes through the standard logger of package \<^verbatim>\<open>log\<close>, which this
  repository never reconfigures: it reads the clock, puts the header of its default
  flags (date and time, \<^verbatim>\<open>YYYY/MM/DD hh:mm:ss\<close> and a space) before the message, ends the
  message with a newline when it has none, and makes one write to standard error.
\<close>

definition log_header :: "Time \<Rightarrow> string" where
  "log_header t =
     fmt_0d 4 (Year t) @ ''/'' @ fmt_0d 2 (Month t) @ ''/'' @ fmt_0d 2 (Day t) @ '' '' @
     fmt_0d 2 (Hour t) @ '':'' @ fmt_0d 2 (Minute t) @ '':'' @ fmt_0d 2 (Second t) @ '' ''"

definition log_Printf :: "(string \<Rightarrow> arg list \<Rightarrow> string) \<Rightarrow> string \<Rightarrow> arg list \<Rightarrow> World \<Rightarrow> World" where
  "log_Printf sf format args w =
     (let (now, w1) = time_Now w;
          s = sf format args;
          line = log_header now @ s @ (if s \<noteq> [] \<and> last s = CHR 0x0A then [] else newline)
      in w1\<lparr>stderr := stderr w1 @ [line]\<rparr>)"

text \<open>The remote client's \<^verbatim>\<open>Log\<close> method takes the entry; nothing comes back.\<close>

definition logging_Log :: "nat \<Rightarrow> Severity \<Rightarrow> string \<Rightarrow> World \<Rightarrow> World" where
  "logging_Log client severity payload w = w\<lparr>remote := remote w @ [(client, severity, payload)]\<rparr>"

text \<open>
  \<^verbatim>\<open>sync.Mutex\<close>: \<^verbatim>\<open>Lock\<close> on a held mutex waits; in a run where no other party releases
  it, the call never returns, which is the value \<open>None\<close>. \<^verbatim>\<open>Unlock\<close> of a mutex that is
  not held is a fatal runtime error, \<open>None\<close> as well.
\<close>

definition Lock :: "bool \<Rightarrow> bool option" where
  "Lock held = (if held then None else Some True)"

definition Unlock :: "bool \<Rightarrow> bool option" where
  "Unlock held = (if held then Some False else None)"

text \<open>
  \<^verbatim>\<open>ioutil.WriteFile\<close> opens the file for writing, creating it if needed and truncating
  it, writes the data and closes the file. How the operating system answers is a
  parameter: the write goes through, the open fails (the file is left as it was), or
  the write stops after some bytes (the file, already truncated, keeps those bytes).
  The result is the error, if any, and the new world. The permission argument, which
  matters only when the file is created, is left out.
\<close>

datatype write_outcome = WriteOk | OpenFails | WriteFails nat

datatype error = OpenError | WriteError

definition ioutil_WriteFile :: "write_outcome \<Rightarrow> string \<Rightarrow> string \<Rightarrow> World \<Rightarrow> error option \<times> World" where
  "ioutil_WriteFile oc name data w =
     (let w1 = w\<lparr>writes := writes w @ [(name, data)]\<rparr>
      in case oc of
           WriteOk \<Rightarrow> (None, w1\<lparr>files := (files w1)(name \<mapsto> data)\<rparr>)
         | OpenFails \<Rightarrow> (Some OpenError, w1)
         | WriteFails n \<Rightarrow> (Some WriteError, w1\<lparr>files := (files w1)(name \<mapsto> take n data)\<rparr>))"

section \<open>The dispatch \<^verbatim>\<open>output\<close>\<close>

text \<open>
  The logger is shared, through a pointer, by the callers and by the flush task. The
  model threads one logger state and one world through the operations and runs each
  operation, a log call or a tick of the flush, as a whole. An operation that finds a
  lock held therefore finds it held for ever.
\<close>

text \<open>The remote block (log.go, lines 84-93).\<close>

definition output_stackdriver ::
  "(string \<Rightarrow> arg list \<Rightarrow> string) \<Rightarrow> Log \<Rightarrow> World \<Rightarrow> Severity \<Rightarrow> string \<Rightarrow> arg list \<Rightarrow> World" where
  "output_stackdriver sf l w severity format args =
     (if enableStackDriver l \<and> logStackdriver l \<noteq> None then
        (if format \<noteq> [] then
           (case logStackdriver l of
              None \<Rightarrow> w
            | Some client \<Rightarrow> logging_Log client severity (sf format args) w)
         else
           (case logStackdriver l of
              None \<Rightarrow> w
            | Some client \<Rightarrow> logging_Log client severity (Sprint args) w))
      else w)"

text \<open>The console block (log.go, lines 95-106).\<close>

definition output_console ::
  "(string \<Rightarrow> arg list \<Rightarrow> string) \<Rightarrow> Log \<Rightarrow> World \<Rightarrow> Severity \<Rightarrow> string \<Rightarrow> arg list \<Rightarrow> (Log \<times> World) option" where
  "output_console sf l w severity format args =
     (if enableConsole l then
        (case Lock (muxConsole l) of
           None \<Rightarrow> None
         | Some m \<Rightarrow>
             (let l1 = l\<lparr>muxConsole := m\<rparr>;
                  w1 = log_Printf sf (formats_at severity) [] w;
                  (now, w2) = time_Now w1;
                  w3 = fmt_Printf sf (formataTimePadraoLog now @ '': '') [] w2;
                  w4 = (if format = [] then fmt_Printf sf (Sprint args) [] w3
                        else fmt_Printf sf format args w3);
                  w5 = fmt_Printf sf newline [] w4
              in (case Unlock (muxConsole l1) of
                    None \<Rightarrow> None
                  | Some m' \<Rightarrow> Some (l1\<lparr>muxConsole := m'\<rparr>, w5))))
      else Some (l, w))"

text \<open>The file block (log.go, lines 108-119); \<^verbatim>\<open>WriteString\<close> appends to the buffer.\<close>

definition output_file ::
  "(string \<Rightarrow> arg list \<Rightarrow> string) \<Rightarrow> Log \<Rightarrow> World \<Rightarrow> Severity \<Rightarrow> string \<Rightarrow> arg list \<Rightarrow> (Log \<times> World) option" where
  "output_file sf l w severity format args =
     (if enableFile l \<and> fileName l \<noteq> [] then
        (case bufferFile l of
           None \<Rightarrow> Some (l, w)
         | Some b \<Rightarrow>
             (case Lock (muxFile l) of
                None \<Rightarrow> None
              | Some m \<Rightarrow>
                  (let l1 = l\<lparr>muxFile := m\<rparr>;
                       b1 = b @ formats_at severity;
                       (now, w1) = time_Now w;
                       b2 = b1 @ (formataTimePadraoLog now @ '': '');
                       b3 = (if format = [] then b2 @ Sprint args else b2 @ sf format args);
                       b4 = b3 @ newline;
                       l2 = l1\<lparr>bufferFile := Some b4\<rparr>
                   in (case Unlock (muxFile l2) of
                         None \<Rightarrow> None
                       | Some m' \<Rightarrow> Some (l2\<lparr>muxFile := m'\<rparr>, w1)))))
      else Some (l, w))"

definition "output" ::
  "(string \<Rightarrow> arg list \<Rightarrow> string) \<Rightarrow> Log \<Rightarrow> World \<Rightarrow> Severity \<Rightarrow> string \<Rightarrow> arg list \<Rightarrow> (Log \<times> World) option" where
  "output sf l w severity format args =
     (let w1 = output_stackdriver sf l w severity format args
      in case output_console sf l w1 severity format args of
           None \<Rightarrow> None
         | Some (l2, w2) \<Rightarrow> output_file sf l2 w2 severity format args)"

section \<open>The fourteen methods\<close>

definition Trace :: "(string \<Rightarrow> arg list \<Rightarrow> string) \<Rightarrow> Log \<Rightarrow> World \<Rightarrow> arg list \<Rightarrow> (Log \<times> World) option" where
  "Trace sf l w args = output sf l w logging_Debug [] args"

definition Tracef :: "(string \<Rightarrow> arg list \<Rightarrow> string) \<Rightarrow> Log \<Rightarrow> World \<Rightarrow> string \<Rightarrow> arg list \<Rightarrow> (Log \<times> World) option" where
  "Tracef sf l w format args = output sf l w logging_Debug format args"

definition Info :: "(string \<Rightarrow> arg list \<Rightarrow> string) \<Rightarrow> Log \<Rightarrow> World \<Rightarrow> arg list \<Rightarrow> (Log \<times> World) option" where
  "Info sf l w args = output sf l w logging_Info [] args"

definition Infof :: "(string \<Rightarrow> arg list \<Rightarrow> string) \<Rightarrow> Log \<Rightarrow> World \<Rightarrow> string \<Rightarrow> arg list \<Rightarrow> (Log \<times> World) option" where
  "Infof sf l w format args = output sf l w logging_Debug format args"

definition Notice :: "(string \<Rightarrow> arg list \<Rightarrow> string) \<Rightarrow> Log \<Rightarrow> World \<Rightarrow> arg list \<Rightarrow> (Log \<times> World) option" where
  "Notice sf l w args = output sf l w logging_Notice [] args"

definition Noticef :: "(string \<Rightarrow> arg list \<Rightarrow> string) \<Rightarrow> Log \<Rightarrow> World \<Rightarrow> string \<Rightarrow> arg list \<Rightarrow> (Log \<times> World) option" where
  "Noticef sf l w format args = output sf l w logging_Notice format args"

definition Erro :: "(string \<Rightarrow> arg list \<Rightarrow> string) \<Rightarrow> Log \<Rightarrow> World \<Rightarrow> arg list \<Rightarrow> (Log \<times> World) option" where
  "Erro sf l w args = output sf l w logging_Error [] args"

definition Errof :: "(string \<Rightarrow> arg list \<Rightarrow> string) \<Rightarrow> Log \<Rightarrow> World \<Rightarrow> string \<Rightarrow> arg list \<Rightarrow> (Log \<times> World) option" where
  "Errof sf l w format args = output sf l w logging_Error format args"

definition Warn :: "(string \<Rightarrow> arg list \<Rightarrow> string) \<Rightarrow> Log \<Rightarrow> World \<Rightarrow> arg list \<Rightarrow> (Log \<times> World) option" where
  "Warn sf l w args = output sf l w logging_Warning [] args"

definition Warnf :: "(string \<Rightarrow> arg list \<Rightarrow> string) \<Rightarrow> Log \<Rightarrow> World \<Rightarrow> string \<Rightarrow> arg list \<Rightarrow> (Log \<times> World) option" where
  "Warnf sf l w format args = output sf l w logging_Warning format args"

definition Alert :: "(string \<Rightarrow> arg list \<Rightarrow> string) \<Rightarrow> Log \<Rightarrow> World \<Rightarrow> arg list \<Rightarrow> (Log \<times> World) option" where
  "Alert sf l w args = output sf l w logging_Alert [] args"

definition Alertf :: "(string \<Rightarrow> arg list \<Rightarrow> string) \<Rightarrow> Log \<Rightarrow> World \<Rightarrow> string \<Rightarrow> arg list \<Rightarrow> (Log \<times> World) option" where
  "Alertf sf l w format args = output sf l w logging_Alert format args"

definition Emergency :: "(string \<Rightarrow> arg list \<Rightarrow> string) \<Rightarrow> Log \<Rightarrow> World \<Rightarrow> arg list \<Rightarrow> (Log \<times> World) option" where
  "Emergency sf l w args = output sf l w logging_Emergency [] args"

definition Emergencyf :: "(string \<Rightarrow> arg list \<Rightarrow> string) \<Rightarrow> Log \<Rightarrow> World \<Rightarrow> string \<Rightarrow> arg list \<Rightarrow> (Log \<times> World) option" where
  "Emergencyf sf l w format args = output sf l w logging_Emergency format args"

section \<open>The background flush\<close>

text \<open>
  One pass through the \<^verbatim>\<open>case <-ticker.C\<close> branch of \<^verbatim>\<open>flushLogFile\<close> (log.go, lines
  71-78). The error that \<^verbatim>\<open>ioutil.WriteFile\<close> returns is not looked at.
\<close>

definition flush_tick :: "write_outcome \<Rightarrow> Log \<Rightarrow> World \<Rightarrow> (Log \<times> World) option" where
  "flush_tick oc l w =
     (case Lock (muxFile l) of
        None \<Rightarrow> None
      | Some m \<Rightarrow>
          (let l1 = l\<lparr>muxFile := m\<rparr>
           in case bufferFile l1 of
                None \<Rightarrow> Some (l1, w)
              | Some b \<Rightarrow>
                  (let w1 = (if 0 < length b \<and> fileName l1 \<noteq> []
                             then snd (ioutil_WriteFile oc (fileName l1) b w) else w);
                       l2 = l1\<lparr>bufferFile := Some []\<rparr>
                   in case Unlock (muxFile l2) of
                        None \<Rightarrow> None
                      | Some m' \<Rightarrow> Some (l2\<lparr>muxFile := m'\<rparr>, w1))))"

text \<open>
  \<^verbatim>\<open>flushLogFile\<close> loops for ever and returns nothing. The model runs its first ticks, one
  for each element of the list, which says how the file system answers at that tick;
  the value is the state after the last of them, \<open>None\<close> when a tick never returns.
\<close>

fun flushLogFile :: "write_outcome list \<Rightarrow> Log \<Rightarrow> World \<Rightarrow> (Log \<times> World) option" where
  "flushLogFile [] l w = Some (l, w)"
| "flushLogFile (oc # ocs) l w =
     (case flush_tick oc l w of
        None \<Rightarrow> None
      | Some (l', w') \<Rightarrow> flushLogFile ocs l' w')"

section \<open>Constructors\<close>

record FileConfig =
  FileName :: string

text \<open>
  \<^verbatim>\<open>NewLogFile\<close> (log.go, lines 198-208) reads through the configuration pointer: a nil
  pointer panics, the value \<open>None\<close>. The flush task it starts is \<open>flushLogFile\<close> on the
  logger it returns.
\<close>

definition NewLogFile :: "FileConfig option \<Rightarrow> Log option" where
  "NewLogFile config =
     (case config of
        None \<Rightarrow> None
      | Some c \<Rightarrow>
          Some \<lparr>enableConsole = False, enableFile = True, enableStackDriver = False,
                muxConsole = False, muxFile = False,
                fileName = FileConfig.FileName c, bufferFile = Some [],
                logStackdriver = None\<rparr>)"

record ConsoleConfig =
  FileName :: string

text \<open>\<^verbatim>\<open>NewLogConsole\<close> (log.go, lines 216-222) never reads its argument and starts no task.\<close>

definition NewLogConsole :: "ConsoleConfig option \<Rightarrow> Log" where
  "NewLogConsole config =
     \<lparr>enableConsole = True, enableFile = False, enableStackDriver = False,
      muxConsole = False, muxFile = False,
      fileName = [], bufferFile = None, logStackdriver = None\<rparr>"

section \<open>Sequences of calls\<close>

datatype call =
    CallTrace "arg list" | CallTracef string "arg list"
  | CallInfo "arg list" | CallInfof string "arg list"
  | CallNotice "arg list" | CallNoticef string "arg list"
  | CallWarn "arg list" | CallWarnf string "arg list"
  | CallErro "arg list" | CallErrof string "arg list"
  | CallAlert "arg list" | CallAlertf string "arg list"
  | CallEmergency "arg list" | CallEmergencyf string "arg list"

fun invoke :: "(string \<Rightarrow> arg list \<Rightarrow> string) \<Rightarrow> Log \<Rightarrow> World \<Rightarrow> call \<Rightarrow> (Log \<times> World) option" where
  "invoke sf l w (CallTrace args) = Trace sf l w args"
| "invoke sf l w (CallTracef format args) = Tracef sf l w format args"
| "invoke sf l w (CallInfo args) = Info sf l w args"
| "invoke sf l w (CallInfof format args) = Infof sf l w format args"
| "invoke sf l w (CallNotice args) = Notice sf l w args"
| "invoke sf l w (CallNoticef format args) = Noticef sf l w format args"
| "invoke sf l w (CallWarn args) = Warn sf l w args"
| "invoke sf l w (CallWarnf format args) = Warnf sf l w format args"
| "invoke sf l w (CallErro args) = Erro sf l w args"
| "invoke sf l w (CallErrof format args) = Errof sf l w format args"
| "invoke sf l w (CallAlert args) = Alert sf l w args"
| "invoke sf l w (CallAlertf format args) = Alertf sf l w format args"
| "invoke sf l w (CallEmergency args) = Emergency sf l w args"
| "invoke sf l w (CallEmergencyf format args) = Emergencyf sf l w format args"

fun run_calls :: "(string \<Rightarrow> arg list \<Rightarrow> string) \<Rightarrow> Log \<Rightarrow> World \<Rightarrow> call list \<Rightarrow> (Log \<times> World) option" where
  "run_calls sf l w [] = Some (l, w)"
| "run_calls sf l w (c # cs) =
     (case invoke sf l w c of
        None \<Rightarrow> None
      | Some (l', w') \<Rightarrow> run_calls sf l' w' cs)"

text \<open>The operands of a call, and whether the method is one of the seven plain ones.\<close>

fun call_args :: "call \<Rightarrow> arg list" where
  "call_args (CallTrace args) = args"
| "call_args (CallTracef format args) = args"
| "call_args (CallInfo args) = args"
| "call_args (CallInfof format args) = args"
| "call_args (CallNotice args) = args"
| "call_args (CallNoticef format args) = args"
| "call_args (CallWarn args) = args"
| "call_args (CallWarnf format args) = args"
| "call_args (CallErro args) = args"
| "call_args (CallErrof format args) = args"
| "call_args (CallAlert args) = args"
| "call_args (CallAlertf format args) = args"
| "call_args (CallEmergency args) = args"
| "call_args (CallEmergencyf format args) = args"

fun is_plain :: "call \<Rightarrow> bool" where
  "is_plain (CallTrace args) = True"
| "is_plain (CallInfo args) = True"
| "is_plain (CallNotice args) = True"
| "is_plain (CallWarn args) = True"
| "is_plain (CallErro args) = True"
| "is_plain (CallAlert args) = True"
| "is_plain (CallEmergency args) = True"
| "is_plain c = False"

text \<open>
  What each method hands to \<^verbatim>\<open>output\<close>: the severity written in its body, and the
  format, empty for a plain method.
\<close>

fun call_severity :: "call \<Rightarrow> Severity" where
  "call_severity (CallTrace args) = logging_Debug"
| "call_severity (CallTracef format args) = logging_Debug"
| "call_severity (CallInfo args) = logging_Info"
| "call_severity (CallInfof format args) = logging_Debug"
| "call_severity (CallNotice args) = logging_Notice"
| "call_severity (CallNoticef format args) = logging_Notice"
| "call_severity (CallWarn args) = logging_Warning"
| "call_severity (CallWarnf format args) = logging_Warning"
| "call_severity (CallErro args) = logging_Error"
| "call_severity (CallErrof format args) = logging_Error"
| "call_severity (CallAlert args) = logging_Alert"
| "call_severity (CallAlertf format args) = logging_Alert"
| "call_severity (CallEmergency args) = logging_Emergency"
| "call_severity (CallEmergencyf format args) = logging_Emergency"

fun call_format :: "call \<Rightarrow> string" where
  "call_format (CallTracef format args) = format"
| "call_format (CallInfof format args) = format"
| "call_format (CallNoticef format args) = format"
| "call_format (CallWarnf format args) = format"
| "call_format (CallErrof format args) = format"
| "call_format (CallAlertf format args) = format"
| "call_format (CallEmergencyf format args) = format"
| "call_format c = []"

text \<open>
  The message as the remote block and the file block build it (log.go, lines 85-91 and
  112-116): \<^verbatim>\<open>fmt.Sprint\<close> of the operands for an empty format, \<^verbatim>\<open>fmt.Sprintf\<close> otherwise.
\<close>

definition rendered :: "(string \<Rightarrow> arg list \<Rightarrow> string) \<Rightarrow> string \<Rightarrow> arg list \<Rightarrow> string" where
  "rendered sf format args = (if format = [] then Sprint args else sf format args)"

text \<open>
  The operands' default representations in order, with one space between two
  neighbours of which neither is a string.
\<close>

fun joined :: "arg list \<Rightarrow> string" where
  "joined [] = []"
| "joined [a] = default_string a"
| "joined (a # b # as) =
     default_string a @ (if isString a then [] else if isString b then [] else '' '') @
     joined (b # as)"

text \<open>Every two neighbouring operands include a string.\<close>

fun string_between :: "arg list \<Rightarrow> bool" where
  "string_between [] = True"
| "string_between [a] = True"
| "string_between (a # b # as) = ((isString a \<or> isString b) \<and> string_between (b # as))"

text \<open>
  The state of the two locks between operations: the console lock is free, and the file
  lock is held only on a logger without a buffer.
\<close>

definition locks_free :: "Log \<Rightarrow> bool" where
  "locks_free l \<longleftrightarrow> \<not> muxConsole l \<and> (if muxFile l then bufferFile l = None else True)"

text \<open>Sample values for concrete runs.\<close>

definition flog0 :: Log where
  "flog0 = \<lparr>enableConsole = False, enableFile = True, enableStackDriver = False,
            muxConsole = False, muxFile = False,
            fileName = ''/tmp/x.log'', bufferFile = Some [],
            logStackdriver = None\<rparr>"

definition t0 :: Time where
  "t0 = \<lparr>Day = 5, Month = 3, Year = 2024, Hour = 7, Minute = 8, Second = 9,
         Nanosecond = 123456789\<rparr>"

definition w0 :: World where
  "w0 = \<lparr>now_at = (\<lambda>n. t0), reads = 0, stdout = [], stderr = [], remote = [],
         files = (\<lambda>p. None), writes = []\<rparr>"

section \<open>Properties of the tag table\<close>

lemmas severity_defs =
  logging_Default_def logging_Debug_def logging_Info_def logging_Notice_def
  logging_Warning_def logging_Error_def logging_Critical_def logging_Alert_def
  logging_Emergency_def

text \<open>
  C8. The tag lookup is a total function of the severity alone: each of the seven
  severities of the table has its bracketed uppercase tag, and every other severity
  has the empty tag.
\<close>

theorem formats_at_total:
  "formats_at logging_Debug = ''[TRACE] '' \<and>
   formats_at logging_Info = ''[INFO] '' \<and>
   formats_at logging_Notice = ''[NOTICE] '' \<and>
   formats_at logging_Warning = ''[WARN] '' \<and>
   formats_at logging_Error = ''[ERROR] '' \<and>
   formats_at logging_Alert = ''[ALERT] '' \<and>
   formats_at logging_Emergency = ''[EMERGENCY] '' \<and>
   (\<forall>s. s \<notin> {logging_Debug, logging_Info, logging_Notice, logging_Warning,
               logging_Error, logging_Alert, logging_Emergency} \<longrightarrow> formats_at s = [])"
  by (simp add: formats_at_def formats_def severity_defs)

theorem formats_at_total_witness:
  "logging_Critical \<notin> {logging_Debug, logging_Info, logging_Notice, logging_Warning,
               logging_Error, logging_Alert, logging_Emergency} \<and>
   formats_at logging_Critical = [] \<and> formats_at logging_Warning = ''[WARN] ''"
proof -
  have out: "logging_Critical \<notin> {logging_Debug, logging_Info, logging_Notice, logging_Warning,
               logging_Error, logging_Alert, logging_Emergency}"
    by (simp add: severity_defs)
  from formats_at_total have "formats_at logging_Critical = []"
    using out by blast
  moreover from formats_at_total have "formats_at logging_Warning = ''[WARN] ''"
    by blast
  ultimately show ?thesis using out by blast
qed

section \<open>Properties of the timestamp\<close>

lemma formataTimePadraoLog_example:
  "formataTimePadraoLog t0 = ''05/03/2024 07:08:09.123''"
  by (simp add: t0_def formataTimePadraoLog_def fmt_0d_def fmt_d_def quo_def itoa.simps digit_def)

text \<open>
  The length of a timestamp, for years of up to four digits: twenty characters up to and
  including the point, then as many digits as the millisecond count has.
\<close>

lemma itoa_length_1: "n < 10 \<Longrightarrow> length (itoa n) = 1"
  by (subst itoa.simps) simp

lemma itoa_length_2: "10 \<le> n \<Longrightarrow> n < 100 \<Longrightarrow> length (itoa n) = 2"
  by (subst itoa.simps) (simp add: itoa_length_1)

lemma itoa_length_3: "100 \<le> n \<Longrightarrow> n < 1000 \<Longrightarrow> length (itoa n) = 3"
  by (subst itoa.simps) (simp add: itoa_length_2)

lemma itoa_length_4: "1000 \<le> n \<Longrightarrow> n < 10000 \<Longrightarrow> length (itoa n) = 4"
  by (subst itoa.simps) (simp add: itoa_length_3)

lemma fmt_0d_2_length: "0 \<le> d \<Longrightarrow> d \<le> 99 \<Longrightarrow> length (fmt_0d 2 d) = 2"
proof -
  assume d: "0 \<le> d" "d \<le> 99"
  consider "nat \<bar>d\<bar> < 10" | "10 \<le> nat \<bar>d\<bar>" "nat \<bar>d\<bar> < 100" using d by linarith
  then show ?thesis
    using d by cases (simp_all add: fmt_0d_def itoa_length_1 itoa_length_2)
qed

lemma fmt_0d_4_length: "0 \<le> y \<Longrightarrow> y \<le> 9999 \<Longrightarrow> length (fmt_0d 4 y) = 4"
proof -
  assume y: "0 \<le> y" "y \<le> 9999"
  consider "nat \<bar>y\<bar> < 10" | "10 \<le> nat \<bar>y\<bar>" "nat \<bar>y\<bar> < 100"
    | "100 \<le> nat \<bar>y\<bar>" "nat \<bar>y\<bar> < 1000" | "1000 \<le> nat \<bar>y\<bar>" "nat \<bar>y\<bar> < 10000"
    using y by linarith
  then show ?thesis
    using y
    by cases (simp_all add: fmt_0d_def itoa_length_1 itoa_length_2 itoa_length_3 itoa_length_4)
qed

lemma quo_nonneg: "0 \<le> a \<Longrightarrow> 0 < b \<Longrightarrow> quo a b = a div b"
  by (cases "a = 0") (simp_all add: quo_def)

lemma millis_length:
  assumes "0 \<le> ns" "ns \<le> 999999999"
  shows "length (fmt_d (quo ns 1000000)) =
           (if ns < 10000000 then 1 else if ns < 100000000 then 2 else 3)"
proof -
  let ?ms = "ns div 1000000"
  have q: "quo ns 1000000 = ?ms" using assms(1) by (simp add: quo_nonneg)
  have r: "0 \<le> ?ms" "?ms \<le> 999" using assms by simp_all
  consider "ns < 10000000" | "10000000 \<le> ns" "ns < 100000000" | "100000000 \<le> ns"
    by linarith
  then show ?thesis
  proof cases
    case 1
    then have "nat ?ms < 10" using r by linarith
    then show ?thesis using 1 r by (simp add: q fmt_d_def itoa_length_1)
  next
    case 2
    then have "10 \<le> nat ?ms" "nat ?ms < 100" using r by linarith+
    then show ?thesis using 2 r by (simp add: q fmt_d_def itoa_length_2)
  next
    case 3
    then have "100 \<le> nat ?ms" "nat ?ms < 1000" using r by linarith+
    then show ?thesis using 3 r by (simp add: q fmt_d_def itoa_length_3)
  qed
qed

lemma formataTimePadraoLog_length:
  assumes "valid_time t" "0 \<le> Year t" "Year t \<le> 9999"
  shows "length (formataTimePadraoLog t) =
           (if Nanosecond t < 10000000 then 21 else if Nanosecond t < 100000000 then 22 else 23)"
proof -
  from assms(1) have
    "length (fmt_0d 2 (Day t)) = 2" "length (fmt_0d 2 (Month t)) = 2"
    "length (fmt_0d 2 (Hour t)) = 2" "length (fmt_0d 2 (Minute t)) = 2"
    "length (fmt_0d 2 (Second t)) = 2"
    by (simp_all add: valid_time_def fmt_0d_2_length)
  moreover have "length (fmt_0d 4 (Year t)) = 4"
    using assms(2,3) by (rule fmt_0d_4_length)
  moreover have "length (fmt_d (quo (Nanosecond t) 1000000)) =
      (if Nanosecond t < 10000000 then 1 else if Nanosecond t < 100000000 then 2 else 3)"
    using assms(1) by (intro millis_length) (simp_all add: valid_time_def)
  ultimately show ?thesis
    by (simp add: formataTimePadraoLog_def)
qed

text \<open>
  C2. The instant 2024-03-05 07:08:09.005 is rendered with a one-digit millisecond
  field: the last directive of the format string is \<^verbatim>\<open>%d\<close>, which does not pad.
\<close>

theorem formataTimePadraoLog_millis_not_padded:
  "valid_time \<lparr>Day = 5, Month = 3, Year = 2024, Hour = 7, Minute = 8, Second = 9,
               Nanosecond = 5000000\<rparr> \<and>
   formataTimePadraoLog \<lparr>Day = 5, Month = 3, Year = 2024, Hour = 7, Minute = 8, Second = 9,
                         Nanosecond = 5000000\<rparr> = ''05/03/2024 07:08:09.5''"
  by (simp add: valid_time_def formataTimePadraoLog_def fmt_0d_def fmt_d_def quo_def
      itoa.simps digit_def)

section \<open>The three blocks of the dispatch, one at a time\<close>

lemma time_Now_simps [simp]:
  "fst (time_Now w) = now_at w (reads w)"
  "snd (time_Now w) = w\<lparr>reads := Suc (reads w)\<rparr>"
  by (simp_all add: time_Now_def)

lemma output_stackdriver_frame:
  "files (output_stackdriver sf l w severity format args) = files w \<and>
   writes (output_stackdriver sf l w severity format args) = writes w \<and>
   stdout (output_stackdriver sf l w severity format args) = stdout w \<and>
   stderr (output_stackdriver sf l w severity format args) = stderr w \<and>
   reads (output_stackdriver sf l w severity format args) = reads w \<and>
   now_at (output_stackdriver sf l w severity format args) = now_at w"
  by (simp add: output_stackdriver_def logging_Log_def split: option.splits)

lemma output_stackdriver_off:
  "\<not> enableStackDriver l \<or> logStackdriver l = None \<Longrightarrow>
   output_stackdriver sf l w severity format args = w"
  by (auto simp: output_stackdriver_def)

lemma output_stackdriver_on:
  "enableStackDriver l \<Longrightarrow> logStackdriver l = Some client \<Longrightarrow>
   output_stackdriver sf l w severity format args =
     w\<lparr>remote := remote w @ [(client, severity, rendered sf format args)]\<rparr>"
  by (simp add: output_stackdriver_def logging_Log_def rendered_def)

lemma output_console_off:
  "\<not> enableConsole l \<Longrightarrow> output_console sf l w severity format args = Some (l, w)"
  by (simp add: output_console_def)

lemma output_console_blocked:
  "enableConsole l \<Longrightarrow> muxConsole l \<Longrightarrow> output_console sf l w severity format args = None"
  by (simp add: output_console_def Lock_def)

lemma output_console_on:
  assumes "enableConsole l" "\<not> muxConsole l"
  shows "output_console sf l w severity format args =
     Some (l, w\<lparr>reads := Suc (Suc (reads w)),
               stderr := stderr w @
                 [log_header (now_at w (reads w)) @ sf (formats_at severity) [] @
                  (if sf (formats_at severity) [] \<noteq> [] \<and> last (sf (formats_at severity) []) = CHR 0x0A
                   then [] else newline)],
               stdout := stdout w @
                 [sf (formataTimePadraoLog (now_at w (Suc (reads w))) @ '': '') [],
                  (if format = [] then sf (Sprint args) [] else sf format args),
                  sf newline []]\<rparr>)"
proof -
  have l: "l\<lparr>muxConsole := False\<rparr> = l" using assms(2) by (cases l) simp
  show ?thesis
    using assms
    by (simp add: output_console_def Lock_def Unlock_def log_Printf_def fmt_Printf_def
        time_Now_def Let_def l)
qed

lemma output_file_skip:
  "bufferFile l = None \<or> \<not> enableFile l \<or> fileName l = [] \<Longrightarrow>
   output_file sf l w severity format args = Some (l, w)"
  by (auto simp: output_file_def split: option.splits)

lemma output_file_blocked:
  "enableFile l \<Longrightarrow> fileName l \<noteq> [] \<Longrightarrow> bufferFile l = Some b \<Longrightarrow> muxFile l \<Longrightarrow>
   output_file sf l w severity format args = None"
  by (simp add: output_file_def Lock_def)

lemma output_file_on:
  assumes "enableFile l" "fileName l \<noteq> []" "bufferFile l = Some b" "\<not> muxFile l"
  shows "output_file sf l w severity format args =
     Some (l\<lparr>bufferFile := Some (b @ formats_at severity @
                 formataTimePadraoLog (now_at w (reads w)) @ '': '' @
                 rendered sf format args @ newline)\<rparr>,
           w\<lparr>reads := Suc (reads w)\<rparr>)"
proof -
  have l: "\<And>x. l\<lparr>muxFile := False, bufferFile := x\<rparr> = l\<lparr>bufferFile := x\<rparr>"
    using assms(4) by (cases l) simp
  show ?thesis
    using assms
    by (simp add: output_file_def Lock_def Unlock_def time_Now_def Let_def rendered_def l)
qed

section \<open>The dispatch as a whole\<close>

lemma invoke_output:
  "invoke sf l w c = output sf l w (call_severity c) (call_format c) (call_args c)"
  by (cases c)
    (simp_all add: Trace_def Tracef_def Info_def Infof_def Notice_def Noticef_def Warn_def
      Warnf_def Erro_def Errof_def Alert_def Alertf_def Emergency_def Emergencyf_def)

lemma output_frame:
  assumes "output sf l w severity format args = Some (l', w')"
  shows "files w' = files w \<and> writes w' = writes w"
proof -
  let ?w1 = "output_stackdriver sf l w severity format args"
  from assms obtain l2 w2 where
    c: "output_console sf l ?w1 severity format args = Some (l2, w2)" and
    f: "output_file sf l2 w2 severity format args = Some (l', w')"
    by (auto simp: output_def Let_def split: option.splits)
  have "files w2 = files ?w1 \<and> writes w2 = writes ?w1"
    using c
    by (auto simp: output_console_def Lock_def Unlock_def log_Printf_def fmt_Printf_def
        time_Now_def Let_def split: if_splits)
  moreover have "files w' = files w2 \<and> writes w' = writes w2"
    using f
    by (auto simp: output_file_def Lock_def Unlock_def time_Now_def Let_def
        split: if_splits option.splits)
  ultimately show ?thesis
    using output_stackdriver_frame [of sf l w severity format args] by simp
qed

lemma output_remote:
  assumes "output sf l w severity format args = Some (l', w')"
  shows "remote w' = remote (output_stackdriver sf l w severity format args)"
proof -
  let ?w1 = "output_stackdriver sf l w severity format args"
  from assms obtain l2 w2 where
    c: "output_console sf l ?w1 severity format args = Some (l2, w2)" and
    f: "output_file sf l2 w2 severity format args = Some (l', w')"
    by (auto simp: output_def Let_def split: option.splits)
  have "remote w2 = remote ?w1"
    using c
    by (auto simp: output_console_def Lock_def Unlock_def log_Printf_def fmt_Printf_def
        time_Now_def Let_def split: if_splits)
  moreover have "remote w' = remote w2"
    using f
    by (auto simp: output_file_def Lock_def Unlock_def time_Now_def Let_def
        split: if_splits option.splits)
  ultimately show ?thesis by simp
qed

lemma output_console_inv:
  assumes "\<not> muxConsole l"
  shows "\<exists>w'. output_console sf l w severity format args = Some (l, w')"
proof (cases "enableConsole l")
  case True
  then show ?thesis using assms output_console_on [of l sf w severity format args] by blast
next
  case False
  then show ?thesis by (simp add: output_console_off)
qed

lemma output_file_inv:
  assumes "muxFile l \<longrightarrow> bufferFile l = None"
  shows "\<exists>l' w'. output_file sf l w severity format args = Some (l', w') \<and>
           muxConsole l' = muxConsole l \<and> muxFile l' = muxFile l \<and>
           (bufferFile l' = None \<longleftrightarrow> bufferFile l = None)"
proof (cases "bufferFile l = None \<or> \<not> enableFile l \<or> fileName l = []")
  case True
  then show ?thesis using output_file_skip [of l sf w severity format args] by simp
next
  case False
  then obtain b where b: "bufferFile l = Some b" by auto
  with False assms have "\<not> muxFile l" by auto
  with False b show ?thesis
    using output_file_on [of l b sf w severity format args] by simp
qed

lemma output_returns:
  assumes "locks_free l"
  shows "\<exists>l' w'. output sf l w severity format args = Some (l', w') \<and> locks_free l'"
proof -
  let ?w1 = "output_stackdriver sf l w severity format args"
  from assms have c: "\<not> muxConsole l" by (simp add: locks_free_def)
  from output_console_inv [OF c] obtain w2 where
    w2: "output_console sf l ?w1 severity format args = Some (l, w2)" by blast
  from assms have "muxFile l \<longrightarrow> bufferFile l = None"
    by (simp add: locks_free_def split: if_splits)
  from output_file_inv [OF this, of sf w2 severity format args] obtain l' w' where
    "output_file sf l w2 severity format args = Some (l', w')"
    "muxConsole l' = muxConsole l" "muxFile l' = muxFile l"
    "bufferFile l' = None \<longleftrightarrow> bufferFile l = None"
    by auto
  with w2 assms show ?thesis
    by (auto simp: output_def Let_def locks_free_def split: if_splits)
qed

section \<open>\<^verbatim>\<open>fmt.Sprint\<close> and its separator\<close>

lemma doPrint_joined:
  "doPrint n prev (a # as) =
     (if 0 < n \<and> \<not> isString a \<and> \<not> prev then '' '' else []) @ joined (a # as)"
proof (induction as arbitrary: n prev a)
  case Nil
  then show ?case by simp
next
  case (Cons b as)
  show ?case
    by (subst doPrint.simps(2)) (simp add: Cons.IH del: doPrint.simps)
qed

lemma Sprint_joined: "Sprint args = joined args"
  by (cases args) (simp_all add: Sprint_def doPrint_joined del: doPrint.simps(2))

lemma joined_no_separator:
  "string_between args \<Longrightarrow> joined args = concat (map default_string args)"
  by (induction args rule: joined.induct) auto

section \<open>One tick of the flush\<close>

lemma flush_tick_blocked: "muxFile l \<Longrightarrow> flush_tick oc l w = None"
  by (simp add: flush_tick_def Lock_def)

lemma flush_tick_nil:
  "\<not> muxFile l \<Longrightarrow> bufferFile l = None \<Longrightarrow> flush_tick oc l w = Some (l\<lparr>muxFile := True\<rparr>, w)"
  by (simp add: flush_tick_def Lock_def)

lemma flush_tick_buffer:
  assumes "\<not> muxFile l" "bufferFile l = Some b"
  shows "flush_tick oc l w =
     Some (l\<lparr>bufferFile := Some []\<rparr>,
           if b \<noteq> [] \<and> fileName l \<noteq> [] then snd (ioutil_WriteFile oc (fileName l) b w) else w)"
proof -
  have l: "\<And>x. l\<lparr>muxFile := False, bufferFile := x\<rparr> = l\<lparr>bufferFile := x\<rparr>"
    using assms(1) by (cases l) simp
  show ?thesis
    using assms
    by (simp add: flush_tick_def Lock_def Unlock_def Let_def l)
qed

lemma ioutil_WriteFile_world:
  "writes (snd (ioutil_WriteFile oc name data w)) = writes w @ [(name, data)] \<and>
   stdout (snd (ioutil_WriteFile oc name data w)) = stdout w \<and>
   stderr (snd (ioutil_WriteFile oc name data w)) = stderr w \<and>
   remote (snd (ioutil_WriteFile oc name data w)) = remote w \<and>
   reads (snd (ioutil_WriteFile oc name data w)) = reads w"
  by (cases oc) (simp_all add: ioutil_WriteFile_def)

lemma ioutil_WriteFile_ok:
  "files (snd (ioutil_WriteFile WriteOk name data w)) = (files w)(name \<mapsto> data) \<and>
   fst (ioutil_WriteFile WriteOk name data w) = None"
  by (simp add: ioutil_WriteFile_def)

lemma ioutil_WriteFile_error:
  "oc \<noteq> WriteOk \<Longrightarrow> fst (ioutil_WriteFile oc name data w) \<noteq> None"
  by (cases oc) (simp_all add: ioutil_WriteFile_def)

section \<open>The fourteen methods and their severities\<close>

lemmas facade_defs =
  Trace_def Tracef_def Info_def Infof_def Notice_def Noticef_def Warn_def
  Warnf_def Erro_def Errof_def Alert_def Alertf_def Emergency_def Emergencyf_def

lemma facade_dispatch:
  "Trace sf l w args = output sf l w logging_Debug [] args \<and>
   Tracef sf l w format args = output sf l w logging_Debug format args \<and>
   Info sf l w args = output sf l w logging_Info [] args \<and>
   Notice sf l w args = output sf l w logging_Notice [] args \<and>
   Noticef sf l w format args = output sf l w logging_Notice format args \<and>
   Warn sf l w args = output sf l w logging_Warning [] args \<and>
   Warnf sf l w format args = output sf l w logging_Warning format args \<and>
   Erro sf l w args = output sf l w logging_Error [] args \<and>
   Errof sf l w format args = output sf l w logging_Error format args \<and>
   Alert sf l w args = output sf l w logging_Alert [] args \<and>
   Alertf sf l w format args = output sf l w logging_Alert format args \<and>
   Emergency sf l w args = output sf l w logging_Emergency [] args \<and>
   Emergencyf sf l w format args = output sf l w logging_Emergency format args"
  by (simp add: facade_defs)

lemma flog0_fields:
  "enableFile flog0" "\<not> enableConsole flog0" "\<not> enableStackDriver flog0"
  "fileName flog0 = ''/tmp/x.log''" "bufferFile flog0 = Some []"
  "\<not> muxFile flog0" "\<not> muxConsole flog0" "logStackdriver flog0 = None"
  by (simp_all add: flog0_def)

lemma w0_fields:
  "now_at w0 n = t0" "reads w0 = 0" "stdout w0 = []" "stderr w0 = []" "remote w0 = []"
  "writes w0 = []" "files w0 p = None"
  by (simp_all add: w0_def)

lemma output_flog0:
  "output sf flog0 w0 severity format args =
     Some (flog0\<lparr>bufferFile := Some (formats_at severity @ ''05/03/2024 07:08:09.123: '' @
                     rendered sf format args @ newline)\<rparr>,
           w0\<lparr>reads := 1\<rparr>)"
  using output_file_on [of flog0 "[]" sf w0 severity format args]
  by (simp add: output_def output_stackdriver_off output_console_off flog0_fields w0_fields
      formataTimePadraoLog_example)

text \<open>
  C1. Thirteen of the fourteen methods hand \<^verbatim>\<open>output\<close> the severity of their name
  (\<open>facade_dispatch\<close>). \<^verbatim>\<open>Infof\<close> hands it \<^verbatim>\<open>logging.Debug\<close>: on the logger that
  \<^verbatim>\<open>NewLogFile\<close> builds for \<^verbatim>\<open>/tmp/x.log\<close>, \<^verbatim>\<open>Infof("hi")\<close> buffers a line tagged
  \<^verbatim>\<open>[TRACE]\<close>, where \<^verbatim>\<open>Info("hi")\<close> buffers one tagged \<^verbatim>\<open>[INFO]\<close>.
\<close>

theorem Infof_dispatches_with_Debug:
  "NewLogFile (Some \<lparr>FileConfig.FileName = ''/tmp/x.log''\<rparr>) = Some flog0 \<and>
   Infof Sprintf flog0 w0 ''hi'' [] = output Sprintf flog0 w0 logging_Debug ''hi'' [] \<and>
   Infof Sprintf flog0 w0 ''hi'' [] =
     Some (flog0\<lparr>bufferFile := Some ''[TRACE] 05/03/2024 07:08:09.123: hi\<newline>''\<rparr>,
           w0\<lparr>reads := 1\<rparr>) \<and>
   Info Sprintf flog0 w0 [AString ''hi''] =
     Some (flog0\<lparr>bufferFile := Some ''[INFO] 05/03/2024 07:08:09.123: hi\<newline>''\<rparr>,
           w0\<lparr>reads := 1\<rparr>)"
  by (simp add: NewLogFile_def flog0_def [symmetric] Infof_def Info_def output_flog0
      formats_at_def formats_def severity_defs rendered_def Sprintf_def Sprint_def
      extraString_def newline_def)

section \<open>What a tick does to the buffer, the file and the lock\<close>

text \<open>
  C3. A tick on a logger with a buffer, the file lock being free: the tick returns, the
  buffer is empty afterwards and the lock is free again; \<^verbatim>\<open>ioutil.WriteFile\<close> is called,
  once, with the path and the buffer's bytes, exactly when the buffer and the path are
  both non-empty; when that write goes through, the file holds exactly those bytes and
  no other file changes; when no write is made, nothing outside the logger changes.
\<close>

theorem flush_tick_writes_iff:
  assumes "bufferFile l = Some b" and "\<not> muxFile l"
  shows "\<exists>w'. flush_tick oc l w = Some (l\<lparr>bufferFile := Some []\<rparr>, w') \<and>
           bufferFile (l\<lparr>bufferFile := Some []\<rparr>) = Some [] \<and>
           \<not> muxFile (l\<lparr>bufferFile := Some []\<rparr>) \<and>
           ((writes w' \<noteq> writes w) = (b \<noteq> [] \<and> fileName l \<noteq> [])) \<and>
           (b \<noteq> [] \<and> fileName l \<noteq> [] \<longrightarrow> writes w' = writes w @ [(fileName l, b)]) \<and>
           (b \<noteq> [] \<and> fileName l \<noteq> [] \<and> oc = WriteOk \<longrightarrow>
              files w' = (files w)(fileName l \<mapsto> b)) \<and>
           (b = [] \<or> fileName l = [] \<longrightarrow> w' = w)"
proof (cases "b \<noteq> [] \<and> fileName l \<noteq> []")
  case True
  let ?w' = "snd (ioutil_WriteFile oc (fileName l) b w)"
  have t: "flush_tick oc l w = Some (l\<lparr>bufferFile := Some []\<rparr>, ?w')"
    using flush_tick_buffer [OF assms(2) assms(1), of oc w] True by simp
  have wr: "writes ?w' = writes w @ [(fileName l, b)]"
    using ioutil_WriteFile_world [of oc "fileName l" b w] by simp
  have ok: "oc = WriteOk \<longrightarrow> files ?w' = (files w)(fileName l \<mapsto> b)"
    using ioutil_WriteFile_ok [of "fileName l" b w] by simp
  show ?thesis
    using t wr ok True assms(2) by simp
next
  case False
  have "flush_tick oc l w = Some (l\<lparr>bufferFile := Some []\<rparr>, w)"
    using flush_tick_buffer [OF assms(2) assms(1), of oc w] False by simp
  then show ?thesis
    using False assms(2) by auto
qed

theorem flush_tick_writes_iff_witness:
  "bufferFile (flog0\<lparr>bufferFile := Some ''x''\<rparr>) = Some ''x'' \<and>
   \<not> muxFile (flog0\<lparr>bufferFile := Some ''x''\<rparr>) \<and>
   (\<exists>w'. flush_tick WriteOk (flog0\<lparr>bufferFile := Some ''x''\<rparr>) w0 = Some (flog0, w') \<and>
         writes w' = [(''/tmp/x.log'', ''x'')] \<and>
         files w' = (files w0)(''/tmp/x.log'' \<mapsto> ''x''))"
proof -
  let ?l = "flog0\<lparr>bufferFile := Some ''x''\<rparr>"
  have b: "bufferFile ?l = Some ''x''" by simp
  have m: "\<not> muxFile ?l" by (simp add: flog0_def)
  have e: "?l\<lparr>bufferFile := Some []\<rparr> = flog0" by (simp add: flog0_def)
  have f: "fileName ?l = ''/tmp/x.log''" by (simp add: flog0_def)
  show ?thesis
    using flush_tick_writes_iff [OF b m, of WriteOk w0] b m
    unfolding e f
    by (auto simp: w0_fields)
qed

lemma flushLogFile_with_buffer:
  assumes "bufferFile l \<noteq> None" and "\<not> muxFile l"
  shows "\<exists>l' w'. flushLogFile ocs l w = Some (l', w') \<and> bufferFile l' \<noteq> None \<and> \<not> muxFile l'"
  using assms
proof (induction ocs arbitrary: l w)
  case Nil
  then show ?case by simp
next
  case (Cons oc ocs)
  from Cons.prems obtain b where b: "bufferFile l = Some b" by auto
  let ?l1 = "l\<lparr>bufferFile := Some []\<rparr>"
  obtain w1 where t: "flush_tick oc l w = Some (?l1, w1)"
    using flush_tick_buffer [OF Cons.prems(2) b, of oc w] by simp
  have "bufferFile ?l1 \<noteq> None" "\<not> muxFile ?l1"
    using Cons.prems(2) by simp_all
  from Cons.IH [OF this, of w1] t show ?case by simp
qed

text \<open>
  Both constructors return a logger in the state \<open>locks_free\<close>, and log calls
  (\<open>output_returns\<close>) and ticks keep it.
\<close>

lemma NewLogFile_locks_free: "NewLogFile config = Some l \<Longrightarrow> locks_free l"
  by (auto simp: NewLogFile_def locks_free_def split: option.splits)

lemma NewLogConsole_locks_free: "locks_free (NewLogConsole config)"
  by (simp add: NewLogConsole_def locks_free_def)

lemma flush_tick_locks_free:
  assumes "locks_free l" and "flush_tick oc l w = Some (l', w')"
  shows "locks_free l'"
proof (cases "muxFile l")
  case True
  then show ?thesis using assms(2) by (simp add: flush_tick_blocked)
next
  case False
  show ?thesis
  proof (cases "bufferFile l")
    case None
    then show ?thesis
      using assms False by (auto simp: flush_tick_nil locks_free_def)
  next
    case (Some b)
    then show ?thesis
      using assms False flush_tick_buffer [OF False Some, of oc w]
      by (auto simp: locks_free_def)
  qed
qed

text \<open>
  C4. On a logger without a buffer (the one \<^verbatim>\<open>NewLogConsole\<close> returns), a tick takes the
  file lock and returns with the lock still held: \<^verbatim>\<open>Unlock\<close> is inside the test for a
  buffer. The next tick waits for the lock for ever.
\<close>

theorem flush_tick_nil_buffer_keeps_lock:
  "bufferFile (NewLogConsole None) = None \<and>
   \<not> muxFile (NewLogConsole None) \<and>
   flush_tick WriteOk (NewLogConsole None) w0 = Some ((NewLogConsole None)\<lparr>muxFile := True\<rparr>, w0) \<and>
   flush_tick WriteOk ((NewLogConsole None)\<lparr>muxFile := True\<rparr>) w0 = None \<and>
   flushLogFile [WriteOk, WriteOk] (NewLogConsole None) w0 = None"
  by (simp add: NewLogConsole_def flush_tick_def Lock_def)

section \<open>What a log call appends to the buffer\<close>

lemma output_with_file:
  assumes "enableFile l" "fileName l \<noteq> []" "bufferFile l = Some b"
    and "\<not> muxConsole l" "\<not> muxFile l"
  shows "\<exists>w'. output sf l w severity format args =
           Some (l\<lparr>bufferFile := Some (b @ formats_at severity @
                       formataTimePadraoLog
                         (now_at w (reads w + (if enableConsole l then 2 else 0))) @
                       '': '' @ rendered sf format args @ newline)\<rparr>, w') \<and>
           remote w' = remote (output_stackdriver sf l w severity format args)"
proof -
  let ?w1 = "output_stackdriver sf l w severity format args"
  have r: "reads ?w1 = reads w" "now_at ?w1 = now_at w"
    using output_stackdriver_frame [of sf l w severity format args] by simp_all
  show ?thesis
  proof (cases "enableConsole l")
    case True
    from output_console_on [OF True assms(4), of sf ?w1 severity format args]
    obtain w2 where c: "output_console sf l ?w1 severity format args = Some (l, w2)"
      and w2: "reads w2 = Suc (Suc (reads w))" "now_at w2 = now_at w" "remote w2 = remote ?w1"
      using r by simp
    from output_file_on [OF assms(1) assms(2) assms(3) assms(5), of sf w2 severity format args]
    show ?thesis
      using c w2 True by (simp add: output_def)
  next
    case False
    from output_file_on [OF assms(1) assms(2) assms(3) assms(5), of sf ?w1 severity format args]
    show ?thesis
      using False r by (simp add: output_def output_console_off)
  qed
qed

lemma output_file_lock_held:
  assumes "enableFile l" "fileName l \<noteq> []" "bufferFile l = Some b" and "muxFile l"
  shows "output sf l w severity format args = None"
proof (cases "output_console sf l (output_stackdriver sf l w severity format args) severity format args")
  case None
  then show ?thesis by (simp add: output_def)
next
  case (Some p)
  then obtain l2 w2 where p: "p = (l2, w2)" by (cases p)
  have "l2 = l"
    using Some p
    by (cases "enableConsole l"; cases "muxConsole l")
      (auto simp: output_console_off output_console_blocked output_console_on)
  then show ?thesis
    using Some p output_file_blocked [OF assms, of sf w2 severity format args]
    by (simp add: output_def)
qed

text \<open>
  C7, as amended. A log call on a logger whose file sink is enabled, whose path is not
  empty and whose buffer is present, the locks being free, appends to the buffer
  exactly the tag of the severity the method dispatches with, the timestamp, a colon
  and a space, the message and a newline; what the buffer held stays in front and
  nothing else of the logger changes. With the file lock held the call does not
  return: the append waits for the lock.
\<close>

theorem log_call_appends_line:
  assumes "enableFile l" "fileName l \<noteq> []" "bufferFile l = Some b"
    and "\<not> muxConsole l" "\<not> muxFile l"
  shows "(\<exists>w'. invoke sf l w c =
            Some (l\<lparr>bufferFile := Some (b @ formats_at (call_severity c) @
                        formataTimePadraoLog
                          (now_at w (reads w + (if enableConsole l then 2 else 0))) @
                        '': '' @ rendered sf (call_format c) (call_args c) @ newline)\<rparr>, w')) \<and>
         invoke sf (l\<lparr>muxFile := True\<rparr>) w c = None"
proof -
  have "invoke sf (l\<lparr>muxFile := True\<rparr>) w c = None"
    unfolding invoke_output
    by (rule output_file_lock_held [of _ b]) (use assms in simp_all)
  then show ?thesis
    unfolding invoke_output
    using output_with_file [OF assms, of sf w "call_severity c" "call_format c" "call_args c"]
    by blast
qed

theorem log_call_appends_line_witness:
  "enableFile flog0 \<and> fileName flog0 \<noteq> [] \<and> bufferFile flog0 = Some [] \<and>
   \<not> muxConsole flog0 \<and> \<not> muxFile flog0 \<and>
   (\<exists>w'. invoke Sprintf flog0 w0 (CallWarnf ''disk at %d%%'' [AInt 91]) =
      Some (flog0\<lparr>bufferFile := Some ''[WARN] 05/03/2024 07:08:09.123: disk at 91%\<newline>''\<rparr>, w'))"
proof -
  have h: "enableFile flog0" "fileName flog0 \<noteq> []" "bufferFile flog0 = Some []"
    "\<not> muxConsole flog0" "\<not> muxFile flog0"
    by (simp_all add: flog0_fields)
  have m: "formats_at logging_Warning @ formataTimePadraoLog t0 @ '': '' @
           rendered Sprintf ''disk at %d%%'' [AInt 91] @ newline =
           ''[WARN] 05/03/2024 07:08:09.123: disk at 91%\<newline>''"
    by (simp add: formats_at_def formats_def severity_defs formataTimePadraoLog_example
        rendered_def Sprintf_def printArg_def extraString_def fmt_d_def itoa.simps digit_def
        newline_def)
  from log_call_appends_line [OF h, of Sprintf w0 "CallWarnf ''disk at %d%%'' [AInt 91]"]
  show ?thesis
    using h m by (simp add: w0_fields)
qed

text \<open>
  C7, as stated, fails on the logger that \<^verbatim>\<open>NewLogFile\<close> builds for the empty path: the
  file sink is enabled and the buffer is present, and a log call appends nothing.
\<close>

theorem empty_path_appends_nothing:
  "NewLogFile (Some \<lparr>FileConfig.FileName = []\<rparr>) = Some (flog0\<lparr>fileName := []\<rparr>) \<and>
   enableFile (flog0\<lparr>fileName := []\<rparr>) \<and>
   bufferFile (flog0\<lparr>fileName := []\<rparr>) = Some [] \<and>
   Info Sprintf (flog0\<lparr>fileName := []\<rparr>) w0 [AString ''a''] = Some (flog0\<lparr>fileName := []\<rparr>, w0)"
  by (simp add: NewLogFile_def flog0_def Info_def output_def output_stackdriver_off
      output_console_off output_file_skip)

section \<open>The message of a plain call and the console writes\<close>

lemma plain_call_format: "is_plain c \<Longrightarrow> call_format c = []"
  by (cases c) simp_all

text \<open>
  C5, as amended. A plain call on a logger in the state \<open>locks_free\<close> returns, and its
  message, as it is handed to the remote client and as it is appended to the file
  buffer, is the operands' default representations in order with one space between two
  neighbours of which neither is a string; when every two neighbours include a string
  it is their plain concatenation.
\<close>

theorem plain_call_message:
  assumes "is_plain c" and "locks_free l"
  shows "\<exists>l' w'. invoke sf l w c = Some (l', w') \<and>
           (\<forall>client. enableStackDriver l \<and> logStackdriver l = Some client \<longrightarrow>
              remote w' = remote w @ [(client, call_severity c, joined (call_args c))]) \<and>
           (\<forall>b. enableFile l \<and> fileName l \<noteq> [] \<and> bufferFile l = Some b \<longrightarrow>
              bufferFile l' =
                Some (b @ formats_at (call_severity c) @
                      formataTimePadraoLog
                        (now_at w (reads w + (if enableConsole l then 2 else 0))) @
                      '': '' @ joined (call_args c) @ newline)) \<and>
           (string_between (call_args c) \<longrightarrow>
              joined (call_args c) = concat (map default_string (call_args c)))"
proof -
  have m: "rendered sf (call_format c) (call_args c) = joined (call_args c)"
    using assms(1) by (simp add: rendered_def plain_call_format Sprint_joined)
  from output_returns [OF assms(2), of sf w "call_severity c" "call_format c" "call_args c"]
  obtain l' w' where
    o: "output sf l w (call_severity c) (call_format c) (call_args c) = Some (l', w')"
    by blast
  have r: "\<forall>client. enableStackDriver l \<and> logStackdriver l = Some client \<longrightarrow>
          remote w' = remote w @ [(client, call_severity c, joined (call_args c))]"
    using output_remote [OF o] m by (simp add: output_stackdriver_on)
  have f: "\<forall>b. enableFile l \<and> fileName l \<noteq> [] \<and> bufferFile l = Some b \<longrightarrow>
          bufferFile l' =
            Some (b @ formats_at (call_severity c) @
                  formataTimePadraoLog
                    (now_at w (reads w + (if enableConsole l then 2 else 0))) @
                  '': '' @ joined (call_args c) @ newline)"
  proof (intro allI impI)
    fix b
    assume a: "enableFile l \<and> fileName l \<noteq> [] \<and> bufferFile l = Some b"
    with assms(2) have k: "\<not> muxConsole l" "\<not> muxFile l"
      by (auto simp: locks_free_def split: if_splits)
    from a have "enableFile l" "fileName l \<noteq> []" "bufferFile l = Some b" by simp_all
    from output_with_file [OF this k, of sf w "call_severity c" "call_format c" "call_args c"]
    show "bufferFile l' =
            Some (b @ formats_at (call_severity c) @
                  formataTimePadraoLog
                    (now_at w (reads w + (if enableConsole l then 2 else 0))) @
                  '': '' @ joined (call_args c) @ newline)"
      using o m by auto
  qed
  show ?thesis
    unfolding invoke_output
    using o r f joined_no_separator [of "call_args c"] by blast
qed

theorem plain_call_message_witness:
  "is_plain (CallInfo [AString ''a'', AString ''b'']) \<and> locks_free flog0 \<and>
   enableFile flog0 \<and> fileName flog0 \<noteq> [] \<and> bufferFile flog0 = Some [] \<and>
   string_between [AString ''a'', AString ''b''] \<and>
   (\<exists>l' w'. invoke Sprintf flog0 w0 (CallInfo [AString ''a'', AString ''b'']) = Some (l', w') \<and>
      bufferFile l' = Some ''[INFO] 05/03/2024 07:08:09.123: ab\<newline>'')"
proof -
  have p: "is_plain (CallInfo [AString ''a'', AString ''b''])" by simp
  have k: "locks_free flog0" by (simp add: locks_free_def flog0_fields)
  have h: "enableFile flog0 \<and> fileName flog0 \<noteq> [] \<and> bufferFile flog0 = Some []"
    by (simp add: flog0_fields)
  have s: "string_between [AString ''a'', AString ''b'']" by simp
  have m: "formats_at logging_Info @ formataTimePadraoLog t0 @ '': '' @
           concat (map default_string [AString ''a'', AString ''b'']) @ newline =
           ''[INFO] 05/03/2024 07:08:09.123: ab\<newline>''"
    by (simp add: formats_at_def formats_def severity_defs formataTimePadraoLog_example
        newline_def)
  from plain_call_message [OF p k, of Sprintf w0]
  obtain l' w' where
    "invoke Sprintf flog0 w0 (CallInfo [AString ''a'', AString ''b'']) = Some (l', w')"
    "bufferFile l' = Some (formats_at logging_Info @ formataTimePadraoLog t0 @ '': '' @
        joined [AString ''a'', AString ''b''] @ newline)"
    "joined [AString ''a'', AString ''b''] = concat (map default_string [AString ''a'', AString ''b''])"
    using s h by (auto simp: w0_fields flog0_fields)
  then show ?thesis
    using p k h s m by auto
qed

text \<open>
  C5, as stated, fails for two integer operands: \<^verbatim>\<open>Info(1, 2)\<close> buffers the message
  \<^verbatim>\<open>1 2\<close>, with a space, while the operands' representations concatenate to \<^verbatim>\<open>12\<close>.
\<close>

theorem Info_two_ints_spaced:
  "Info Sprintf flog0 w0 [AInt 1, AInt 2] =
     Some (flog0\<lparr>bufferFile := Some ''[INFO] 05/03/2024 07:08:09.123: 1 2\<newline>''\<rparr>,
           w0\<lparr>reads := 1\<rparr>) \<and>
   concat (map default_string [AInt 1, AInt 2]) = ''12''"
  by (simp add: Info_def output_flog0 formats_at_def formats_def severity_defs rendered_def
      Sprint_def fmt_d_def itoa.simps digit_def newline_def)

text \<open>
  C6. On the logger that \<^verbatim>\<open>NewLogConsole\<close> returns, \<^verbatim>\<open>Info("a", "b")\<close> makes three writes
  to standard output, the timestamp, the message and the newline; the tag is not among
  them. The tag goes through \<^verbatim>\<open>log.Printf\<close>: one write to standard error, with the date
  and time header of package \<^verbatim>\<open>log\<close> before the tag and a newline after it.
\<close>

theorem console_tag_goes_to_standard_logger:
  "Info Sprintf (NewLogConsole None) w0 [AString ''a'', AString ''b''] =
     Some (NewLogConsole None,
           w0\<lparr>reads := 2,
              stdout := [''05/03/2024 07:08:09.123: '', ''ab'', ''\<newline>''],
              stderr := [''2024/03/05 07:08:09 [INFO] \<newline>'']\<rparr>)"
proof -
  let ?l = "NewLogConsole None"
  have l: "enableConsole ?l" "\<not> muxConsole ?l" "\<not> enableStackDriver ?l" "bufferFile ?l = None"
    by (simp_all add: NewLogConsole_def)
  have h: "log_header t0 = ''2024/03/05 07:08:09 ''"
    by (simp add: log_header_def t0_def fmt_0d_def itoa.simps digit_def)
  have f: "formats_at logging_Info = ''[INFO] ''"
    by (simp add: formats_at_def formats_def severity_defs)
  have s: "Sprintf ''[INFO] '' [] = ''[INFO] ''"
    "Sprintf ''05/03/2024 07:08:09.123: '' [] = ''05/03/2024 07:08:09.123: ''"
    "Sprintf ''ab'' [] = ''ab''" "Sprintf newline [] = newline"
    by (simp_all add: Sprintf_def extraString_def newline_def)
  have p: "Sprint [AString ''a'', AString ''b''] = ''ab''"
    by (simp add: Sprint_def)
  show ?thesis
    using output_console_on [OF l(1) l(2), of Sprintf w0 logging_Info "[]"
        "[AString ''a'', AString ''b'']"]
    by (simp add: Info_def output_def output_stackdriver_off output_file_skip l w0_fields
        h f s p formataTimePadraoLog_example)
      (simp add: w0_def newline_def)
qed

text \<open>
  The console block also passes the message of a plain call to \<^verbatim>\<open>fmt.Printf\<close> as its
  format: a percent sign in the message is read as the start of a directive.
\<close>

lemma console_message_is_a_format:
  "map_option (\<lambda>(l, w). stdout w) (Info Sprintf (NewLogConsole None) w0 [AString ''100%'']) =
     Some [''05/03/2024 07:08:09.123: '', ''100%!(NOVERB)'', ''\<newline>'']"
proof -
  let ?l = "NewLogConsole None"
  have l: "enableConsole ?l" "\<not> muxConsole ?l" "\<not> enableStackDriver ?l" "bufferFile ?l = None"
    by (simp_all add: NewLogConsole_def)
  have s: "Sprintf ''05/03/2024 07:08:09.123: '' [] = ''05/03/2024 07:08:09.123: ''"
    "Sprintf ''100%'' [] = ''100%!(NOVERB)''" "Sprintf [CHR 0x0A] [] = [CHR 0x0A]"
    by (simp_all add: Sprintf_def extraString_def)
  have p: "Sprint [AString ''100%''] = ''100%''"
    by (simp add: Sprint_def)
  show ?thesis
    using output_console_on [OF l(1) l(2), of Sprintf w0 logging_Info "[]" "[AString ''100%'']"]
    by (simp add: Info_def output_def output_stackdriver_off output_file_skip l w0_fields
        s p formataTimePadraoLog_example newline_def)
qed

section \<open>The console logger, and errors\<close>

lemma NewLogConsole_fields:
  "enableConsole (NewLogConsole c)" "\<not> enableFile (NewLogConsole c)"
  "\<not> enableStackDriver (NewLogConsole c)" "\<not> muxConsole (NewLogConsole c)"
  "\<not> muxFile (NewLogConsole c)" "bufferFile (NewLogConsole c) = None"
  "fileName (NewLogConsole c) = []" "logStackdriver (NewLogConsole c) = None"
  by (simp_all add: NewLogConsole_def)

lemma output_console_logger:
  "\<exists>w'. output sf (NewLogConsole c) w severity format args = Some (NewLogConsole c, w') \<and>
        files w' = files w \<and> writes w' = writes w"
proof -
  let ?l = "NewLogConsole c"
  obtain w' where o: "output_console sf ?l w severity format args = Some (?l, w')"
    using output_console_inv [of ?l sf w severity format args]
    by (auto simp: NewLogConsole_fields)
  then have "output sf ?l w severity format args = Some (?l, w')"
    by (simp add: output_def output_stackdriver_off output_file_skip NewLogConsole_fields)
  then show ?thesis
    using output_frame [of sf ?l w severity format args ?l w'] by simp
qed

text \<open>
  C9. \<^verbatim>\<open>NewLogConsole\<close> returns the same logger for every configuration, a nil pointer
  included. On that logger every sequence of log calls returns, leaves the logger as it
  was (no buffer appears), leaves every file as it was and calls \<^verbatim>\<open>ioutil.WriteFile\<close> not
  once.
\<close>

theorem console_logger_touches_no_file:
  "NewLogConsole c1 = NewLogConsole c2 \<and>
   (\<exists>w'. run_calls sf (NewLogConsole c) w cs = Some (NewLogConsole c, w') \<and>
         bufferFile (NewLogConsole c) = None \<and>
         files w' = files w \<and> writes w' = writes w)"
proof -
  have "\<exists>w'. run_calls sf (NewLogConsole c) w cs = Some (NewLogConsole c, w') \<and>
         files w' = files w \<and> writes w' = writes w"
  proof (induction cs arbitrary: w)
    case Nil
    then show ?case by simp
  next
    case (Cons x cs)
    obtain w1 where x: "invoke sf (NewLogConsole c) w x = Some (NewLogConsole c, w1)"
      and f1: "files w1 = files w" "writes w1 = writes w"
      unfolding invoke_output
      using output_console_logger [of sf c w "call_severity x" "call_format x" "call_args x"]
      by blast
    from Cons.IH [of w1] obtain w' where
      "run_calls sf (NewLogConsole c) w1 cs = Some (NewLogConsole c, w')"
      "files w' = files w1" "writes w' = writes w1"
      by blast
    with x f1 show ?case by simp
  qed
  then show ?thesis
    by (simp add: NewLogConsole_def)
qed

theorem console_logger_touches_no_file_witness:
  "NewLogConsole None = NewLogConsole (Some \<lparr>ConsoleConfig.FileName = ''/tmp/x.log''\<rparr>) \<and>
   (\<exists>w'. run_calls Sprintf (NewLogConsole (Some \<lparr>ConsoleConfig.FileName = ''/tmp/x.log''\<rparr>)) w0
            [CallInfo [AString ''a''], CallErrof ''%d'' [AInt 7]] =
          Some (NewLogConsole (Some \<lparr>ConsoleConfig.FileName = ''/tmp/x.log''\<rparr>), w') \<and>
        files w' ''/tmp/x.log'' = None \<and> writes w' = [])"
  using console_logger_touches_no_file [of None "Some \<lparr>ConsoleConfig.FileName = ''/tmp/x.log''\<rparr>"
      Sprintf "Some \<lparr>ConsoleConfig.FileName = ''/tmp/x.log''\<rparr>" w0
      "[CallInfo [AString ''a''], CallErrof ''%d'' [AInt 7]]"]
  by (auto simp: w0_fields)

lemma invoke_returns:
  assumes "locks_free l"
  shows "\<exists>l' w'. invoke sf l w c = Some (l', w') \<and> locks_free l'"
  unfolding invoke_output using output_returns [OF assms] .

text \<open>
  C10. No operation hands an error back. A log call on a logger whose console lock is
  free, and whose file lock is held only if it has no buffer, returns for every method
  and every operand list, and what it returns is the logger and the world, nothing
  else. A tick whose write fails, the error being the value \<^verbatim>\<open>ioutil.WriteFile\<close> returns,
  still returns: the logger is the one before with the buffer emptied, the write was
  attempted once, and nothing was written to standard output, to standard error or to
  the remote client.
\<close>

theorem no_error_is_surfaced:
  "(locks_free l \<longrightarrow> (\<exists>l' w'. invoke sf l w c = Some (l', w'))) \<and>
   (bufferFile l = Some b \<and> b \<noteq> [] \<and> fileName l \<noteq> [] \<and> \<not> muxFile l \<and> oc \<noteq> WriteOk \<longrightarrow>
      fst (ioutil_WriteFile oc (fileName l) b w) \<noteq> None \<and>
      (\<exists>w'. flush_tick oc l w = Some (l\<lparr>bufferFile := Some []\<rparr>, w') \<and>
            writes w' = writes w @ [(fileName l, b)] \<and>
            stdout w' = stdout w \<and> stderr w' = stderr w \<and> remote w' = remote w))"
proof (intro conjI impI)
  assume "locks_free l"
  from invoke_returns [OF this, of sf w c]
  show "\<exists>l' w'. invoke sf l w c = Some (l', w')" by blast
next
  assume a: "bufferFile l = Some b \<and> b \<noteq> [] \<and> fileName l \<noteq> [] \<and> \<not> muxFile l \<and> oc \<noteq> WriteOk"
  then show "fst (ioutil_WriteFile oc (fileName l) b w) \<noteq> None"
    by (simp add: ioutil_WriteFile_error)
  from a have "flush_tick oc l w =
      Some (l\<lparr>bufferFile := Some []\<rparr>, snd (ioutil_WriteFile oc (fileName l) b w))"
    using flush_tick_buffer [of l b oc w] by simp
  then show "\<exists>w'. flush_tick oc l w = Some (l\<lparr>bufferFile := Some []\<rparr>, w') \<and>
            writes w' = writes w @ [(fileName l, b)] \<and>
            stdout w' = stdout w \<and> stderr w' = stderr w \<and> remote w' = remote w"
    using ioutil_WriteFile_world [of oc "fileName l" b w] by simp
qed

theorem no_error_is_surfaced_witness:
  "locks_free (flog0\<lparr>bufferFile := Some ''x''\<rparr>) \<and>
   bufferFile (flog0\<lparr>bufferFile := Some ''x''\<rparr>) = Some ''x'' \<and>
   fileName (flog0\<lparr>bufferFile := Some ''x''\<rparr>) \<noteq> [] \<and>
   \<not> muxFile (flog0\<lparr>bufferFile := Some ''x''\<rparr>) \<and> OpenFails \<noteq> WriteOk \<and>
   (\<exists>l' w'. invoke Sprintf (flog0\<lparr>bufferFile := Some ''x''\<rparr>) w0 (CallAlert [AInt 3]) = Some (l', w')) \<and>
   (\<exists>w'. flush_tick OpenFails (flog0\<lparr>bufferFile := Some ''x''\<rparr>) w0 = Some (flog0, w') \<and>
         writes w' = [(''/tmp/x.log'', ''x'')] \<and> stdout w' = [] \<and> stderr w' = [] \<and> remote w' = [])"
proof -
  let ?l = "flog0\<lparr>bufferFile := Some ''x''\<rparr>"
  have h: "locks_free ?l" "bufferFile ?l = Some ''x''" "fileName ?l = ''/tmp/x.log''"
    "\<not> muxFile ?l" "OpenFails \<noteq> WriteOk" "?l\<lparr>bufferFile := Some []\<rparr> = flog0"
    by (simp_all add: locks_free_def flog0_def)
  show ?thesis
    using no_error_is_surfaced [of ?l Sprintf w0 "CallAlert [AInt 3]" "''x''" OpenFails] h
    by (auto simp: w0_fields)
qed

end
